theory Spec2Isabelle
  imports Main
begin

section \<open>Data model of \<^verbatim>\<open>packages/continue-js/src/index.ts\<close>\<close>

text \<open>
  A JavaScript function value is a reference to a function object. The module stores such
  references in its table and writes a property on the object, so function values are
  modelled as addresses, and the properties the module reads or writes (\<^verbatim>\<open>name\<close>,
  \<^verbatim>\<open>continuationId\<close>) and the code of the function live in a store indexed by address.
\<close>

type_synonym fnref = nat

text \<open>
  \<^verbatim>\<open>interface Continuation { done: boolean; continuationId?: string; args?: any[] }\<close>.
  An optional field that is missing is \<open>None\<close>. The type \<open>'v\<close> stands for \<^verbatim>\<open>any\<close>.
\<close>

record 'v Continuation =
  "done" :: bool
  continuationId :: "string option"
  args :: "'v list option"

text \<open>
  The module throws \<^verbatim>\<open>Error\<close> objects that differ in their message only. One constructor
  stands for each message, carrying the values the message interpolates:
  \<^item> \<open>DuplicateRegistration name callerfile\<close>:
    \<^verbatim>\<open>canContinue() has already been called for 'name' in file 'callerfile'.\<close>
  \<^item> \<open>IdentifierCollision id\<close>:
    \<^verbatim>\<open>canContinue() can't register continuationId 'id' because it a;ready exists.\<close>
  \<^item> \<open>UnregisteredUnit name\<close>:
    \<^verbatim>\<open>continueWith() called with a function that can't be continued. Call 'canContinue(name)'.\<close>
  \<^item> \<open>ContinuationNotFound id\<close>:
    \<^verbatim>\<open>continueNow() can't find a continuation function for continuationId 'id'.\<close>
  \<^item> \<open>Thrown x\<close>: whatever a continuation function or a configured callback throws or
    rejects with.
\<close>

datatype 'x error =
    DuplicateRegistration string string
  | IdentifierCollision string
  | UnregisteredUnit string
  | ContinuationNotFound "string option"
  | Thrown 'x

text \<open>
  Continuation functions and the \<^verbatim>\<open>functionNotFound\<close> callback are application code: they
  may have effects and may throw. Their effects are threaded as a value of type \<open>'w\<close> (the
  world outside the module); an awaited call settles to an error or to a continuation.
  The context of type \<open>'c\<close> is opaque and handed on as it is. The module's variables are
  private to it, so application code reaches them through the exported functions only;
  while a dispatch is running it is taken not to register functions or to change the
  configuration, so that one dispatch reads one module state.
\<close>

type_synonym ('v, 'w, 'x) settled = "('x error + 'v Continuation) \<times> 'w"

record ('c, 'v, 'w, 'x) ContinuationConfiguration =
  getContinuationId :: "string \<Rightarrow> string \<Rightarrow> string"
  functionNotFound :: "'v Continuation \<Rightarrow> 'c \<Rightarrow> 'w \<Rightarrow> ('v, 'w, 'x) settled"

text \<open>
  \<^verbatim>\<open>Partial<ContinuationConfiguration>\<close>: each key may be left out; a key that is there
  holds a function.
\<close>

record ('c, 'v, 'w, 'x) PartialConfiguration =
  getContinuationId_opt :: "(string \<Rightarrow> string \<Rightarrow> string) option"
  functionNotFound_opt ::
    "('v Continuation \<Rightarrow> 'c \<Rightarrow> 'w \<Rightarrow> ('v, 'w, 'x) settled) option"

text \<open>
  The state the module works on: its two module-level variables \<^verbatim>\<open>_continuations\<close> and
  \<^verbatim>\<open>_config\<close>, and the function objects. Only \<open>fn_continuationId\<close> of a function object
  is ever written.
\<close>

record ('c, 'v, 'w, 'x) module_state =
  continuations :: "string \<rightharpoonup> fnref"
  config :: "('c, 'v, 'w, 'x) ContinuationConfiguration"
  fn_name :: "fnref \<Rightarrow> string"
  fn_continuationId :: "fnref \<rightharpoonup> string"
  fn_body :: "fnref \<Rightarrow> 'c \<Rightarrow> 'v list \<Rightarrow> 'w \<Rightarrow> ('v, 'w, 'x) settled"

text \<open>What \<^verbatim>\<open>continueNow\<close> calls, in order: the observable trace of a dispatch.\<close>

datatype ('c, 'v) event =
    Invoked fnref 'c "'v list"
  | NotFoundCalled "'v Continuation" 'c

section \<open>The module\<close>

text \<open>
  JavaScript truthiness of a value of type \<^verbatim>\<open>string | undefined\<close>, as tested by
  \<^verbatim>\<open>!cfn.continuationId\<close> and \<^verbatim>\<open>resolved.continuationId\<close>: \<^verbatim>\<open>undefined\<close> and the empty
  string are falsy.
\<close>

definition truthy :: "string option \<Rightarrow> bool" where
  "truthy v = (case v of None \<Rightarrow> False | Some s \<Rightarrow> s \<noteq> [])"

text \<open>The initial value of \<^verbatim>\<open>_config\<close>.\<close>

definition default_getContinuationId :: "string \<Rightarrow> string \<Rightarrow> string" where
  "default_getContinuationId fileName functionName = fileName @ ''#'' @ functionName"

definition default_functionNotFound ::
  "'v Continuation \<Rightarrow> 'c \<Rightarrow> 'w \<Rightarrow> ('v, 'w, 'x) settled" where
  "default_functionNotFound continuation context w =
     (Inl (ContinuationNotFound (continuationId continuation)), w)"

definition default_config :: "('c, 'v, 'w, 'x) ContinuationConfiguration" where
  "default_config =
     \<lparr>getContinuationId = default_getContinuationId,
      functionNotFound = default_functionNotFound\<rparr>"

text \<open>
  The state when the module has been loaded: an empty table, the default configuration,
  and function objects without a \<^verbatim>\<open>continuationId\<close> property.
\<close>

definition initial_state ::
  "(fnref \<Rightarrow> string) \<Rightarrow> (fnref \<Rightarrow> 'c \<Rightarrow> 'v list \<Rightarrow> 'w \<Rightarrow> ('v, 'w, 'x) settled)
     \<Rightarrow> ('c, 'v, 'w, 'x) module_state" where
  "initial_state names bodies =
     \<lparr>continuations = Map.empty, config = default_config, fn_name = names,
      fn_continuationId = Map.empty, fn_body = bodies\<rparr>"

text \<open>
  The walk over the call stack in \<^verbatim>\<open>canContinueWith\<close>. A stack is the list of the file
  names of its call sites, \<open>None\<close> where \<^verbatim>\<open>getFileName()\<close> gives no name;
  \<^verbatim>\<open>stack.shift()?.getFileName() ?? ''\<close> is \<open>fileName_of\<close> on the head of the stack.
\<close>

definition fileName_of :: "string option \<Rightarrow> string" where
  "fileName_of site = (case site of None \<Rightarrow> [] | Some f \<Rightarrow> f)"

fun search_callerfile :: "string \<Rightarrow> string \<Rightarrow> string option list \<Rightarrow> string" where
  "search_callerfile currentfile callerfile [] = callerfile"
| "search_callerfile currentfile callerfile (site # stack) =
     (if currentfile \<noteq> fileName_of site then fileName_of site
      else search_callerfile currentfile (fileName_of site) stack)"

definition callerfile_of :: "string option list \<Rightarrow> string" where
  "callerfile_of stack =
     (let currentfile = (case stack of [] \<Rightarrow> [] | site # _ \<Rightarrow> fileName_of site)
      in search_callerfile currentfile [] (tl stack))"

text \<open>
  \<^verbatim>\<open>canContinueWith(fn)\<close>, called with the call stack \<open>stack\<close>. The result is the thrown
  error or the returned function, together with the state the call leaves behind: the
  assignment to \<^verbatim>\<open>cfn.continuationId\<close> is made before the table is tested, and stays when
  the second \<^verbatim>\<open>throw\<close> is reached.
\<close>

definition canContinueWith ::
  "('c, 'v, 'w, 'x) module_state \<Rightarrow> fnref \<Rightarrow> string option list
     \<Rightarrow> ('x error + fnref) \<times> ('c, 'v, 'w, 'x) module_state" where
  "canContinueWith s fn stack =
     (let callerfile = callerfile_of stack in
      if \<not> truthy (fn_continuationId s fn) then
        (let cid = getContinuationId (config s) callerfile (fn_name s fn);
             s1 = s\<lparr>fn_continuationId := (fn_continuationId s)(fn \<mapsto> cid)\<rparr>
         in if continuations s1 cid = None
            then (Inr fn, s1\<lparr>continuations := (continuations s1)(cid \<mapsto> fn)\<rparr>)
            else (Inl (IdentifierCollision cid), s1))
      else (Inl (DuplicateRegistration (fn_name s fn) callerfile), s))"

text \<open>\<^verbatim>\<open>continueWith(fn, ...args)\<close>: throws, or returns a resolved promise of a record.\<close>

definition continueWith ::
  "('c, 'v, 'w, 'x) module_state \<Rightarrow> fnref \<Rightarrow> 'v list \<Rightarrow> 'x error + 'v Continuation" where
  "continueWith s fn as =
     (if \<not> truthy (fn_continuationId s fn) then Inl (UnregisteredUnit (fn_name s fn))
      else Inr \<lparr>done = False, continuationId = fn_continuationId s fn, args = Some as\<rparr>)"

text \<open>\<^verbatim>\<open>dontContinue()\<close>: the record \<^verbatim>\<open>{ done: true }\<close>.\<close>

definition dontContinue :: "'v Continuation" where
  "dontContinue = \<lparr>done = True, continuationId = None, args = None\<rparr>"

text \<open>
  \<^verbatim>\<open>continueNow(continuation, context)\<close> on the record the awaited argument resolves to.
  The call reads the module state and never writes it. It is given the trace so far and
  the world, and returns what the promise settles to, the extended trace and the world
  after the calls it made. The recursion through \<^verbatim>\<open>functionNotFound\<close> has no bound in the
  source: a call that never settles has the value \<open>None\<close>.
\<close>

partial_function (option) continueNow ::
  "('c, 'v, 'w, 'x) module_state \<Rightarrow> 'v Continuation \<Rightarrow> 'c \<Rightarrow> ('c, 'v) event list \<Rightarrow> 'w
     \<Rightarrow> (('x error + 'v Continuation) \<times> ('c, 'v) event list \<times> 'w) option" where
  "continueNow s resolved context trace w =
     (if \<not> done resolved \<and> truthy (continuationId resolved) then
        (case continuations s (the (continuationId resolved)) of
           Some cfn \<Rightarrow>
             (case fn_body s cfn context (case args resolved of None \<Rightarrow> [] | Some as \<Rightarrow> as) w of
                (result, w') \<Rightarrow>
                  Some (result,
                        trace @ [Invoked cfn context
                                   (case args resolved of None \<Rightarrow> [] | Some as \<Rightarrow> as)],
                        w'))
         | None \<Rightarrow>
             (case functionNotFound (config s) resolved context w of
                (Inl e, w') \<Rightarrow> Some (Inl e, trace @ [NotFoundCalled resolved context], w')
              | (Inr redirect, w') \<Rightarrow>
                  if \<not> done redirect
                  then continueNow s redirect context
                         (trace @ [NotFoundCalled resolved context]) w'
                  else Some (Inr redirect, trace @ [NotFoundCalled resolved context], w')))
      else Some (Inr dontContinue, trace, w))"

text \<open>\<^verbatim>\<open>configureContinue(config)\<close>: \<^verbatim>\<open>_config = {..._config, ...config}\<close>.\<close>

definition configureContinue ::
  "('c, 'v, 'w, 'x) module_state \<Rightarrow> ('c, 'v, 'w, 'x) PartialConfiguration
     \<Rightarrow> ('c, 'v, 'w, 'x) module_state" where
  "configureContinue s cfg =
     s\<lparr>config :=
         \<lparr>getContinuationId =
            (case getContinuationId_opt cfg of None \<Rightarrow> getContinuationId (config s)
             | Some g \<Rightarrow> g),
          functionNotFound =
            (case functionNotFound_opt cfg of None \<Rightarrow> functionNotFound (config s)
             | Some h \<Rightarrow> h)\<rparr>\<rparr>"

section \<open>Sequences of calls\<close>

text \<open>
  The exported operations, as calls an application can make, and the module state a call
  leaves behind. \<^verbatim>\<open>continueWith\<close>, \<^verbatim>\<open>continueNow\<close> and \<^verbatim>\<open>dontContinue\<close> contain no
  assignment to the table, the configuration or a function object. A registration leaves
  its state behind also when it throws.
\<close>

datatype ('c, 'v, 'w, 'x) call =
    CanContinueWith fnref "string option list"
  | ContinueWith fnref "'v list"
  | ContinueNow "'v Continuation" 'c
  | DontContinue
  | ConfigureContinue "('c, 'v, 'w, 'x) PartialConfiguration"

fun exec :: "('c, 'v, 'w, 'x) module_state \<Rightarrow> ('c, 'v, 'w, 'x) call
               \<Rightarrow> ('c, 'v, 'w, 'x) module_state" where
  "exec s (CanContinueWith fn stack) = snd (canContinueWith s fn stack)"
| "exec s (ContinueWith fn as) = s"
| "exec s (ContinueNow continuation context) = s"
| "exec s DontContinue = s"
| "exec s (ConfigureContinue cfg) = configureContinue s cfg"

definition run :: "('c, 'v, 'w, 'x) module_state \<Rightarrow> ('c, 'v, 'w, 'x) call list
                     \<Rightarrow> ('c, 'v, 'w, 'x) module_state" where
  "run s calls = foldl exec s calls"

text \<open>
  The only assignment to the \<^verbatim>\<open>continuationId\<close> of a function object is
  \<^verbatim>\<open>cfn.continuationId = _config.getContinuationId(callerfile, cfn.name)\<close> in
  \<^verbatim>\<open>canContinueWith\<close>, executed when \<^verbatim>\<open>!cfn.continuationId\<close> holds. \<open>attaches s c U\<close> says that
  the call \<open>c\<close>, made in state \<open>s\<close>, executes it on \<open>U\<close>; \<open>attach_count\<close> counts these
  calls in a sequence.
\<close>

definition attaches ::
  "('c, 'v, 'w, 'x) module_state \<Rightarrow> ('c, 'v, 'w, 'x) call \<Rightarrow> fnref \<Rightarrow> bool" where
  "attaches s c U =
     (case c of
        CanContinueWith fn stack \<Rightarrow> fn = U \<and> \<not> truthy (fn_continuationId s fn)
      | ContinueWith fn as \<Rightarrow> False
      | ContinueNow continuation context \<Rightarrow> False
      | DontContinue \<Rightarrow> False
      | ConfigureContinue cfg \<Rightarrow> False)"

fun attach_count ::
  "('c, 'v, 'w, 'x) module_state \<Rightarrow> ('c, 'v, 'w, 'x) call list \<Rightarrow> fnref \<Rightarrow> nat" where
  "attach_count s [] U = 0"
| "attach_count s (c # calls) U =
     (if attaches s c U then 1 else 0) + attach_count (exec s c) calls U"

section \<open>The echo-bot sample as a concrete application\<close>

text \<open>
  The functions of \<^verbatim>\<open>samples/02-EchoBot/continuations.js\<close> (\<^verbatim>\<open>startContinuation\<close> at
  address 0, \<^verbatim>\<open>namePromptContinuation\<close> at address 1) and the \<^verbatim>\<open>errorContinuation\<close> of the
  README (every other address, so that two distinct functions carry that name). The
  context says whether the conversation state holds a name, the world counts the
  activities sent.
\<close>

definition sample_names :: "fnref \<Rightarrow> string" where
  "sample_names fn =
     (if fn = 0 then ''startContinuation''
      else if fn = 1 then ''namePromptContinuation''
      else ''errorContinuation'')"

definition sample_bodies ::
  "fnref \<Rightarrow> bool \<Rightarrow> nat list \<Rightarrow> nat \<Rightarrow> (nat, nat, unit) settled" where
  "sample_bodies fn context as w =
     (if fn = 0 \<and> \<not> context
      then (Inr \<lparr>done = False,
                 continuationId = Some ''continuations.js#namePromptContinuation'',
                 args = Some []\<rparr>, Suc w)
      else (Inr dontContinue, Suc w))"

text \<open>The stack of a registration made at the top level of \<^verbatim>\<open>continuations.js\<close>.\<close>

definition sample_stack :: "string option list" where
  "sample_stack = [Some ''index.js'', Some ''continuations.js'', Some ''bot.js'', None]"

definition sample_state :: "(bool, nat, nat, unit) module_state" where
  "sample_state = initial_state sample_names sample_bodies"

definition start_registered :: "(bool, nat, nat, unit) module_state" where
  "start_registered = snd (canContinueWith sample_state 0 sample_stack)"

definition registered_state :: "(bool, nat, nat, unit) module_state" where
  "registered_state =
     run sample_state
       [CanContinueWith 0 sample_stack, CanContinueWith 1 sample_stack,
        CanContinueWith 2 sample_stack]"

text \<open>A configured identifier policy that computes the empty string.\<close>

definition empty_id_config :: "(bool, nat, nat, unit) PartialConfiguration" where
  "empty_id_config =
     \<lparr>getContinuationId_opt = Some (\<lambda>fileName functionName. []),
      functionNotFound_opt = None\<rparr>"

definition empty_id_state :: "(bool, nat, nat, unit) module_state" where
  "empty_id_state = configureContinue sample_state empty_id_config"

definition empty_id_registered :: "(bool, nat, nat, unit) module_state" where
  "empty_id_registered = snd (canContinueWith empty_id_state 0 sample_stack)"

text \<open>Going back to the default identifier policy.\<close>

definition restore_config :: "(bool, nat, nat, unit) PartialConfiguration" where
  "restore_config =
     \<lparr>getContinuationId_opt = Some default_getContinuationId, functionNotFound_opt = None\<rparr>"

definition reconfigured_state :: "(bool, nat, nat, unit) module_state" where
  "reconfigured_state = configureContinue empty_id_registered restore_config"

text \<open>
  The README's \<^verbatim>\<open>functionNotFound: (continuation, context) => continueWith(errorContinuation)\<close>,
  and a policy that ends the chain instead.
\<close>

definition redirect_config :: "(bool, nat, nat, unit) PartialConfiguration" where
  "redirect_config =
     \<lparr>getContinuationId_opt = None,
      functionNotFound_opt =
        Some (\<lambda>continuation context w.
                (Inr \<lparr>done = False,
                      continuationId = Some ''continuations.js#errorContinuation'',
                      args = Some []\<rparr>, w))\<rparr>"

definition give_up_config :: "(bool, nat, nat, unit) PartialConfiguration" where
  "give_up_config =
     \<lparr>getContinuationId_opt = None,
      functionNotFound_opt = Some (\<lambda>continuation context w. (Inr dontContinue, Suc w))\<rparr>"

definition redirect_state :: "(bool, nat, nat, unit) module_state" where
  "redirect_state = configureContinue registered_state redirect_config"

definition give_up_state :: "(bool, nat, nat, unit) module_state" where
  "give_up_state = configureContinue registered_state give_up_config"

definition missing_record :: "nat Continuation" where
  "missing_record = \<lparr>done = False, continuationId = Some ''missing'', args = Some [9]\<rparr>"

definition error_record :: "nat Continuation" where
  "error_record =
     \<lparr>done = False, continuationId = Some ''continuations.js#errorContinuation'',
      args = Some []\<rparr>"

text \<open>
  Calls made before \<^verbatim>\<open>startContinuation\<close> is registered (the \<^verbatim>\<open>continueWith\<close> on it throws),
  and the state after its registration.
\<close>

definition early_calls :: "(bool, nat, nat, unit) call list" where
  "early_calls =
     [CanContinueWith 1 sample_stack, ContinueWith 0 [7], ConfigureContinue give_up_config]"

definition late_registered :: "(bool, nat, nat, unit) module_state" where
  "late_registered = snd (canContinueWith (run sample_state early_calls) 0 sample_stack)"

text \<open>
  \<^verbatim>\<open>startContinuation\<close> registered under the empty-string policy and again under the
  default policy.
\<close>

definition twice_calls :: "(bool, nat, nat, unit) call list" where
  "twice_calls =
     [ConfigureContinue empty_id_config, CanContinueWith 0 sample_stack,
      ConfigureContinue restore_config, CanContinueWith 0 sample_stack]"

text \<open>A sequence with every kind of call, two of them failing registrations.\<close>

definition sample_calls :: "(bool, nat, nat, unit) call list" where
  "sample_calls =
     [CanContinueWith 0 sample_stack, CanContinueWith 1 sample_stack,
      ConfigureContinue empty_id_config, CanContinueWith 2 sample_stack,
      CanContinueWith 3 sample_stack, ContinueWith 0 [], ContinueNow dontContinue True,
      DontContinue, ConfigureContinue give_up_config]"

section \<open>Basic facts\<close>

lemmas model_defs =
  canContinueWith_def continueWith_def configureContinue_def dontContinue_def run_def
  initial_state_def default_config_def default_getContinuationId_def
  default_functionNotFound_def callerfile_of_def fileName_of_def Let_def

lemmas sample_defs = sample_names_def sample_bodies_def sample_stack_def sample_state_def

lemma truthy_Some [simp]: "truthy (Some c) = (c \<noteq> [])"
  by (simp add: truthy_def)

lemma truthy_None [simp]: "\<not> truthy None"
  by (simp add: truthy_def)


subsection \<open>The three branches of \<open>continueNow\<close>\<close>

lemma continueNow_terminal:
  "done r \<or> \<not> truthy (continuationId r) \<Longrightarrow>
   continueNow s r ctx trace w = Some (Inr dontContinue, trace, w)"
  by (subst continueNow.simps) auto

lemma continueNow_found:
  assumes "\<not> done r" and "truthy (continuationId r)"
    and "continuations s (the (continuationId r)) = Some f"
  shows "continueNow s r ctx trace w =
           Some (fst (fn_body s f ctx (case args r of None \<Rightarrow> [] | Some as \<Rightarrow> as) w),
                 trace @ [Invoked f ctx (case args r of None \<Rightarrow> [] | Some as \<Rightarrow> as)],
                 snd (fn_body s f ctx (case args r of None \<Rightarrow> [] | Some as \<Rightarrow> as) w))"
  using assms by (subst continueNow.simps) (simp split: prod.split)

lemma continueNow_not_found:
  assumes "\<not> done r" and "truthy (continuationId r)"
    and "continuations s (the (continuationId r)) = None"
  shows "continueNow s r ctx trace w =
           (case functionNotFound (config s) r ctx w of
              (Inl e, w') \<Rightarrow> Some (Inl e, trace @ [NotFoundCalled r ctx], w')
            | (Inr redirect, w') \<Rightarrow>
                if \<not> done redirect
                then continueNow s redirect ctx (trace @ [NotFoundCalled r ctx]) w'
                else Some (Inr redirect, trace @ [NotFoundCalled r ctx], w'))"
  using assms by (subst continueNow.simps) simp

subsection \<open>The three outcomes of \<open>canContinueWith\<close>\<close>



lemma canContinueWith_Inr:
  assumes "canContinueWith s fn stack = (Inr fn', s')"
  shows "fn' = fn \<and> \<not> truthy (fn_continuationId s fn)
         \<and> continuations s (getContinuationId (config s) (callerfile_of stack) (fn_name s fn))
             = None
         \<and> fn_continuationId s' fn
             = Some (getContinuationId (config s) (callerfile_of stack) (fn_name s fn))
         \<and> continuations s' (getContinuationId (config s) (callerfile_of stack) (fn_name s fn))
             = Some fn"
  using assms by (auto simp: canContinueWith_def Let_def split: if_splits)

lemma canContinueWith_fixed [simp]:
  "fn_name (snd (canContinueWith s fn stack)) = fn_name s"
  "fn_body (snd (canContinueWith s fn stack)) = fn_body s"
  by (simp_all add: canContinueWith_def Let_def)

subsection \<open>What a sequence of calls keeps\<close>

lemma exec_fixed [simp]:
  "fn_name (exec s c) = fn_name s" "fn_body (exec s c) = fn_body s"
  by (cases c; simp add: canContinueWith_def Let_def configureContinue_def)+

lemma exec_entry:
  "continuations s cid = Some f \<Longrightarrow> continuations (exec s c) cid = Some f"
  by (cases c) (auto simp: canContinueWith_def Let_def configureContinue_def)

lemma exec_identifier:
  "fn_continuationId s f = Some cid \<Longrightarrow> cid \<noteq> [] \<Longrightarrow>
   fn_continuationId (exec s c) f = Some cid"
  by (cases c) (auto simp: canContinueWith_def Let_def configureContinue_def)

lemma run_fixed [simp]:
  "fn_name (run s calls) = fn_name s" "fn_body (run s calls) = fn_body s"
  unfolding run_def by (induction calls arbitrary: s; simp)+

lemma run_entry:
  "continuations s cid = Some f \<Longrightarrow> continuations (run s calls) cid = Some f"
  unfolding run_def by (induction calls arbitrary: s) (simp_all add: exec_entry)

lemma run_identifier:
  "fn_continuationId s f = Some cid \<Longrightarrow> cid \<noteq> [] \<Longrightarrow>
   fn_continuationId (run s calls) f = Some cid"
  unfolding run_def by (induction calls arbitrary: s) (simp_all add: exec_identifier)

subsection \<open>Counting the assignments of an identifier\<close>

lemma run_Nil: "run s [] = s"
  by (simp add: run_def)

lemma run_Cons: "run s (c # calls) = run (exec s c) calls"
  by (simp add: run_def)

lemma exec_identifier_kept:
  "fn_continuationId s f \<noteq> None \<Longrightarrow> fn_continuationId (exec s c) f \<noteq> None"
  by (cases c) (auto simp: canContinueWith_def Let_def configureContinue_def)

lemma run_identifier_kept:
  "fn_continuationId s f \<noteq> None \<Longrightarrow> fn_continuationId (run s calls) f \<noteq> None"
proof (induction calls arbitrary: s)
  case Nil
  then show ?case by (simp add: run_Nil)
next
  case (Cons c calls)
  from Cons.prems have "fn_continuationId (exec s c) f \<noteq> None"
    by (rule exec_identifier_kept)
  then have "fn_continuationId (run (exec s c) calls) f \<noteq> None" by (rule Cons.IH)
  then show ?case unfolding run_Cons .
qed

lemma attaches_sets_identifier:
  "attaches s c U \<Longrightarrow> fn_continuationId (exec s c) U \<noteq> None"
  by (cases c) (auto simp: attaches_def canContinueWith_def Let_def)

lemma attach_count_append:
  "attach_count s (xs @ ys) U = attach_count s xs U + attach_count (run s xs) ys U"
  by (induction xs arbitrary: s) (simp_all add: run_Nil run_Cons)

lemma attach_count_before:
  "fn_continuationId (run s calls) U = None \<Longrightarrow> attach_count s calls U = 0"
proof (induction calls arbitrary: s)
  case Nil
  then show ?case by simp
next
  case (Cons c calls)
  have "\<not> attaches s c U"
  proof
    assume "attaches s c U"
    then have "fn_continuationId (exec s c) U \<noteq> None" by (rule attaches_sets_identifier)
    then have "fn_continuationId (run (exec s c) calls) U \<noteq> None"
      by (rule run_identifier_kept)
    with Cons.prems show False by (simp add: run_Cons)
  qed
  moreover from Cons have "attach_count (exec s c) calls U = 0" by (simp add: run_Cons)
  ultimately show ?case by simp
qed

lemma attach_count_after:
  "fn_continuationId s U = Some cid \<Longrightarrow> cid \<noteq> [] \<Longrightarrow> attach_count s calls U = 0"
proof (induction calls arbitrary: s)
  case Nil
  then show ?case by simp
next
  case (Cons c calls)
  from Cons.prems have "\<not> attaches s c U"
    by (cases c) (auto simp: attaches_def)
  moreover from Cons.prems have "fn_continuationId (exec s c) U = Some cid"
    by (simp add: exec_identifier)
  with Cons have "attach_count (exec s c) calls U = 0" by simp
  ultimately show ?case by simp
qed

subsection \<open>The sample application\<close>

lemma start_registered_result:
  "canContinueWith sample_state 0 sample_stack = (Inr 0, start_registered)"
  unfolding start_registered_def by (rule prod_eqI) (simp_all add: model_defs sample_defs)

lemma start_identifier:
  "''continuations.js#startContinuation''
     = getContinuationId (config sample_state) (callerfile_of sample_stack)
         (fn_name sample_state 0)"
  by (simp add: model_defs sample_defs)

section \<open>Terminal records\<close>

text \<open>
  Claim C3. For every context, \<open>continueNow\<close> on a record with \<open>done = True\<close>, or on a
  record with \<open>done = False\<close> and no identifier, returns the record \<^verbatim>\<open>{done: true}\<close>, with
  no identifier and no arguments: the trace and the world come back as they were, so no
  registered function and no \<^verbatim>\<open>functionNotFound\<close> policy has been called. Executing the
  returned record again gives the same.
\<close>

theorem terminal_record_returns_done:
  assumes "done r \<or> continuationId r = None"
  shows "continueNow s r ctx trace w
           = Some (Inr \<lparr>done = True, continuationId = None, args = None\<rparr>, trace, w)
         \<and> continueNow s \<lparr>done = True, continuationId = None, args = None\<rparr> ctx trace w
           = Some (Inr \<lparr>done = True, continuationId = None, args = None\<rparr>, trace, w)"
proof -
  from assms have "done r \<or> \<not> truthy (continuationId r)" by auto
  then have "continueNow s r ctx trace w = Some (Inr dontContinue, trace, w)"
    by (rule continueNow_terminal)
  moreover
  have "continueNow s \<lparr>done = True, continuationId = None, args = None\<rparr> ctx trace w
          = Some (Inr dontContinue, trace, w)"
    by (rule continueNow_terminal) simp
  ultimately show ?thesis by (simp add: dontContinue_def)
qed

text \<open>
  The theorem at \<^verbatim>\<open>{done: true}\<close> and at \<^verbatim>\<open>{done: false, args: [1, 2]}\<close>, with the three
  sample functions registered.
\<close>

theorem terminal_record_returns_done_witness:
  "(done \<lparr>done = True, continuationId = None, args = (None :: nat list option)\<rparr>
      \<or> continuationId \<lparr>done = True, continuationId = None, args = (None :: nat list option)\<rparr>
          = None)
   \<and> continueNow registered_state \<lparr>done = True, continuationId = None, args = None\<rparr>
         True [] 0
       = Some (Inr \<lparr>done = True, continuationId = None, args = None\<rparr>, [], 0)
   \<and> (done \<lparr>done = False, continuationId = None, args = Some [1, 2 :: nat]\<rparr>
        \<or> continuationId \<lparr>done = False, continuationId = None, args = Some [1, 2 :: nat]\<rparr>
            = None)
   \<and> continueNow registered_state \<lparr>done = False, continuationId = None, args = Some [1, 2]\<rparr>
         True [] 0
       = Some (Inr \<lparr>done = True, continuationId = None, args = None\<rparr>, [], 0)"
proof -
  have h1: "done \<lparr>done = True, continuationId = None, args = (None :: nat list option)\<rparr>
            \<or> continuationId \<lparr>done = True, continuationId = None,
                                args = (None :: nat list option)\<rparr> = None"
    by simp
  have h2: "done \<lparr>done = False, continuationId = None, args = Some [1, 2 :: nat]\<rparr>
            \<or> continuationId \<lparr>done = False, continuationId = None, args = Some [1, 2 :: nat]\<rparr>
                = None"
    by simp
  from terminal_record_returns_done [OF h1, of registered_state True "[]" 0]
    terminal_record_returns_done [OF h2, of registered_state True "[]" 0] h1 h2
  show ?thesis by blast
qed

text \<open>
  Claim C10. For every context, \<open>continueNow\<close> on a record with \<open>done = False\<close> and the
  empty string as identifier returns the record \<^verbatim>\<open>{done: true}\<close>, with no identifier and
  no arguments, and the trace and the world as they were: no registered function and no
  policy is called, whatever the table holds, also when a function is registered under
  the empty string.
\<close>

theorem empty_identifier_is_terminal:
  assumes "\<not> done r" and "continuationId r = Some []"
  shows "continueNow s r ctx trace w
           = Some (Inr \<lparr>done = True, continuationId = None, args = None\<rparr>, trace, w)"
proof -
  from assms have "done r \<or> \<not> truthy (continuationId r)" by simp
  then have "continueNow s r ctx trace w = Some (Inr dontContinue, trace, w)"
    by (rule continueNow_terminal)
  then show ?thesis by (simp add: dontContinue_def)
qed

text \<open>
  The theorem in a state whose table maps the empty string to \<^verbatim>\<open>startContinuation\<close>.
\<close>

theorem empty_identifier_is_terminal_witness:
  "continuations empty_id_registered [] = Some 0
   \<and> \<not> done \<lparr>done = False, continuationId = Some [], args = Some [5 :: nat]\<rparr>
   \<and> continuationId \<lparr>done = False, continuationId = Some [], args = Some [5 :: nat]\<rparr>
       = Some []
   \<and> continueNow empty_id_registered
         \<lparr>done = False, continuationId = Some [], args = Some [5]\<rparr> False [] 0
       = Some (Inr \<lparr>done = True, continuationId = None, args = None\<rparr>, [], 0)"
proof -
  have h1: "\<not> done \<lparr>done = False, continuationId = Some [], args = Some [5 :: nat]\<rparr>"
    by simp
  have h2: "continuationId \<lparr>done = False, continuationId = Some [], args = Some [5 :: nat]\<rparr>
            = Some []"
    by simp
  have e: "continuations empty_id_registered [] = Some 0"
    by (simp add: model_defs sample_defs empty_id_registered_def empty_id_state_def
                  empty_id_config_def)
  from empty_identifier_is_terminal [OF h1 h2, of empty_id_registered False "[]" 0] h1 h2 e
  show ?thesis by blast
qed

section \<open>The table only grows\<close>

text \<open>
  Claim C7. The table is append-only: an entry that is in the table stays in it, with
  the same function, through every sequence of calls of the exported operations
  (registrations that succeed or throw, \<^verbatim>\<open>continueWith\<close>, \<^verbatim>\<open>continueNow\<close>, \<^verbatim>\<open>dontContinue\<close>,
  \<^verbatim>\<open>configureContinue\<close>).
\<close>

theorem table_is_append_only:
  assumes "continuations s cid = Some fn"
  shows "continuations (run s calls) cid = Some fn"
  using assms by (rule run_entry)

text \<open>
  The entry of \<^verbatim>\<open>startContinuation\<close> after the sample sequence of calls, among them a
  second registration of the same function and a colliding registration.
\<close>

theorem table_is_append_only_witness:
  "continuations start_registered ''continuations.js#startContinuation'' = Some 0
   \<and> continuations (run start_registered sample_calls) ''continuations.js#startContinuation''
       = Some 0"
proof -
  have h: "continuations start_registered ''continuations.js#startContinuation'' = Some 0"
    by (simp add: model_defs sample_defs start_registered_def)
  from table_is_append_only [OF h, of sample_calls] h show ?thesis by blast
qed

section \<open>Building and dispatching a continuation\<close>

text \<open>
  Claim C1, amended. For every function \<open>U\<close> whose registration succeeded with a
  non-empty identifier \<open>cid\<close>, in every state \<open>s\<close> reached from there by further calls,
  \<open>continueWith U as\<close> returns the record \<^verbatim>\<open>{done: false, continuationId: cid, args: as}\<close>;
  and in every state \<open>s'\<close> reached from \<open>s\<close>, \<open>continueNow\<close> on that record with a context
  \<open>ctx\<close> invokes \<open>U\<close> exactly once, with \<open>ctx\<close> followed by \<open>as\<close> (by nothing when the
  \<open>args\<close> field is absent), and returns what \<open>U\<close> settles to as it is.

  The proviso on the identifier is needed: \<open>continueWith\<close> tests the truthiness of
  \<^verbatim>\<open>cfn.continuationId\<close>, so a function registered under the empty string is refused by it,
  and a record with the empty string as identifier is terminal for \<open>continueNow\<close>.
\<close>

theorem registered_unit_is_dispatched:
  assumes reg: "canContinueWith s0 U stack = (Inr U', s1)"
    and cid: "cid = getContinuationId (config s0) (callerfile_of stack) (fn_name s0 U)"
    and nonempty: "cid \<noteq> []"
    and later: "s = run s1 calls" "s' = run s calls'"
  shows "continueWith s U as = Inr \<lparr>done = False, continuationId = Some cid, args = Some as\<rparr>
         \<and> continueNow s' \<lparr>done = False, continuationId = Some cid, args = Some as\<rparr> ctx trace w
             = Some (fst (fn_body s' U ctx as w), trace @ [Invoked U ctx as],
                     snd (fn_body s' U ctx as w))
         \<and> continueNow s' \<lparr>done = False, continuationId = Some cid, args = None\<rparr> ctx trace w
             = Some (fst (fn_body s' U ctx [] w), trace @ [Invoked U ctx []],
                     snd (fn_body s' U ctx [] w))"
proof -
  from canContinueWith_Inr [OF reg] cid
  have s1: "fn_continuationId s1 U = Some cid" "continuations s1 cid = Some U" by simp_all
  from s1(1) nonempty later(1) have "fn_continuationId s U = Some cid"
    by (simp add: run_identifier)
  then have 1: "continueWith s U as
                  = Inr \<lparr>done = False, continuationId = Some cid, args = Some as\<rparr>"
    using nonempty by (simp add: continueWith_def)
  from s1(2) later have entry: "continuations s' cid = Some U"
    by (simp add: run_entry)
  have 2: "continueNow s' \<lparr>done = False, continuationId = Some cid, args = Some as\<rparr> ctx trace w
             = Some (fst (fn_body s' U ctx as w), trace @ [Invoked U ctx as],
                     snd (fn_body s' U ctx as w))"
    using continueNow_found
            [of "\<lparr>done = False, continuationId = Some cid, args = Some as\<rparr>" s' U ctx trace w]
      nonempty entry by simp
  have 3: "continueNow s' \<lparr>done = False, continuationId = Some cid, args = None\<rparr> ctx trace w
             = Some (fst (fn_body s' U ctx [] w), trace @ [Invoked U ctx []],
                     snd (fn_body s' U ctx [] w))"
    using continueNow_found
            [of "\<lparr>done = False, continuationId = Some cid, args = None\<rparr>" s' U ctx trace w]
      nonempty entry by simp
  from 1 2 3 show ?thesis by simp
qed

text \<open>
  \<^verbatim>\<open>startContinuation\<close> registered from \<^verbatim>\<open>continuations.js\<close>, the sample calls, then
  \<^verbatim>\<open>continueWith(startContinuation, 3, 4)\<close>, one more (failing) registration, and the
  dispatch with a context without a name: the function is invoked once with the context,
  3 and 4, and its record naming \<^verbatim>\<open>namePromptContinuation\<close> comes back.
\<close>

theorem registered_unit_is_dispatched_witness:
  "canContinueWith sample_state 0 sample_stack = (Inr 0, start_registered)
   \<and> ''continuations.js#startContinuation''
       = getContinuationId (config sample_state) (callerfile_of sample_stack)
           (fn_name sample_state 0)
   \<and> continueWith (run start_registered sample_calls) 0 [3, 4]
       = Inr \<lparr>done = False, continuationId = Some ''continuations.js#startContinuation'',
              args = Some [3, 4]\<rparr>
   \<and> continueNow (run (run start_registered sample_calls) [CanContinueWith 0 sample_stack])
         \<lparr>done = False, continuationId = Some ''continuations.js#startContinuation'',
          args = Some [3, 4]\<rparr> False [] 0
       = Some (Inr \<lparr>done = False,
                    continuationId = Some ''continuations.js#namePromptContinuation'',
                    args = Some []\<rparr>,
               [Invoked 0 False [3, 4]], 1)"
proof -
  have ne: "''continuations.js#startContinuation'' \<noteq> []" by simp
  have body: "fn_body (run (run start_registered sample_calls) [CanContinueWith 0 sample_stack])
                0 False [3, 4] 0
              = (Inr \<lparr>done = False,
                    continuationId = Some ''continuations.js#namePromptContinuation'',
                    args = Some []\<rparr>, 1)"
    by (simp add: sample_defs start_registered_def initial_state_def)
  from registered_unit_is_dispatched [OF start_registered_result start_identifier ne refl refl,
      where calls = sample_calls and calls' = "[CanContinueWith 0 sample_stack]"
        and as = "[3, 4]" and ctx = False and trace = "[]" and w = 0]
    start_registered_result start_identifier body
  show ?thesis by simp
qed

text \<open>
  The statement without the proviso fails. With an identifier policy that computes the
  empty string, the registration of \<^verbatim>\<open>startContinuation\<close> succeeds and enters it in the
  table, but \<^verbatim>\<open>continueWith(startContinuation, 1, 2)\<close> throws, and the record with that
  identifier is dispatched to nothing.
\<close>

theorem empty_identifier_unit_not_dispatched:
  "fst (canContinueWith empty_id_state 0 sample_stack) = Inr 0
   \<and> continuations empty_id_registered [] = Some 0
   \<and> continueWith empty_id_registered 0 [1, 2] = Inl (UnregisteredUnit ''startContinuation'')
   \<and> continueNow empty_id_registered
         \<lparr>done = False, continuationId = Some [], args = Some [1, 2]\<rparr> True [] 0
       = Some (Inr dontContinue, [], 0)"
proof -
  have "continueNow empty_id_registered
          \<lparr>done = False, continuationId = Some [], args = Some [1, 2]\<rparr> True [] 0
        = Some (Inr dontContinue, [], 0)"
    by (rule continueNow_terminal) simp
  then show ?thesis
    by (simp add: model_defs sample_defs empty_id_registered_def empty_id_state_def
                  empty_id_config_def)
qed

text \<open>
  Claim C5, amended. \<open>continueWith fn as\<close> fails if and only if the \<^verbatim>\<open>continuationId\<close> of
  \<open>fn\<close> is absent or is the empty string, and the error then names the function; when
  \<open>fn\<close> carries a non-empty identifier the call returns exactly the record
  \<^verbatim>\<open>{done: false, continuationId: fn.continuationId, args: as}\<close>.

  The guard is \<^verbatim>\<open>if (!cfn.continuationId)\<close>: an identifier that is present but empty is
  refused like a missing one.
\<close>

theorem continueWith_fails_iff:
  "((\<exists>e. continueWith s fn as = Inl e)
      = (fn_continuationId s fn = None \<or> fn_continuationId s fn = Some []))
   \<and> (fn_continuationId s fn = None \<or> fn_continuationId s fn = Some []
        \<longrightarrow> continueWith s fn as = Inl (UnregisteredUnit (fn_name s fn)))
   \<and> (fn_continuationId s fn = Some cid \<and> cid \<noteq> []
        \<longrightarrow> continueWith s fn as
              = Inr \<lparr>done = False, continuationId = Some cid, args = Some as\<rparr>)"
  by (cases "fn_continuationId s fn") (auto simp: continueWith_def)

text \<open>
  \<^verbatim>\<open>namePromptContinuation\<close> before any registration, and after the registrations of the
  sample.
\<close>

theorem continueWith_fails_iff_witness:
  "fn_continuationId sample_state 1 = None
   \<and> continueWith sample_state 1 [7] = Inl (UnregisteredUnit ''namePromptContinuation'')
   \<and> fn_continuationId registered_state 1 = Some ''continuations.js#namePromptContinuation''
   \<and> continueWith registered_state 1 [7]
       = Inr \<lparr>done = False, continuationId = Some ''continuations.js#namePromptContinuation'',
              args = Some [7]\<rparr>"
proof -
  have h1: "fn_continuationId sample_state 1 = None"
    by (simp add: model_defs sample_defs)
  have n1: "fn_name sample_state 1 = ''namePromptContinuation''"
    by (simp add: model_defs sample_defs)
  have h2: "fn_continuationId registered_state 1
            = Some ''continuations.js#namePromptContinuation''"
    by (simp add: model_defs sample_defs registered_state_def)
  from continueWith_fails_iff [of sample_state 1 "[7]"] h1 n1
  have 1: "continueWith sample_state 1 [7] = Inl (UnregisteredUnit ''namePromptContinuation'')"
    by simp
  from continueWith_fails_iff
         [of registered_state 1 "[7]" "''continuations.js#namePromptContinuation''"] h2
  have 2: "continueWith registered_state 1 [7]
       = Inr \<lparr>done = False, continuationId = Some ''continuations.js#namePromptContinuation'',
              args = Some [7]\<rparr>"
    by simp
  from h1 1 h2 2 show ?thesis by blast
qed

text \<open>
  The statement with "does not carry identifier metadata" fails: after a registration
  under the empty-string policy the function carries the identifier the registration
  attached, and \<open>continueWith\<close> throws all the same.
\<close>

theorem empty_identifier_refused_by_continueWith:
  "fn_continuationId empty_id_registered 0 = Some []
   \<and> continuations empty_id_registered [] = Some 0
   \<and> continueWith empty_id_registered 0 [] = Inl (UnregisteredUnit ''startContinuation'')"
  by (simp add: model_defs sample_defs empty_id_registered_def empty_id_state_def
                empty_id_config_def)

section \<open>Registration\<close>




text \<open>
  Claim C6, amended. For every function \<open>U\<close> whose registration succeeds: the call
  returns \<open>U\<close> itself and leaves the computed identifier \<open>cid\<close> on \<open>U\<close>, and after every
  further sequence of calls the table maps \<open>cid\<close> to \<open>U\<close>. When \<open>U\<close> carried no
  identifier before the call and \<open>cid\<close> is not empty, the identifier is attached exactly
  once for the lifetime of \<open>U\<close>: no call before this one and no call after it assigns
  the \<^verbatim>\<open>continuationId\<close> of \<open>U\<close>, so that in the whole sequence of calls the assignment
  is executed once on \<open>U\<close>, and \<open>U\<close> carries \<open>cid\<close> ever after.

  Both provisos are needed, because the guard of the registration tests truthiness: a
  function that carries the empty string can be registered and have an identifier
  attached again.
\<close>

theorem registration_attaches_identifier:
  assumes reg: "canContinueWith s0 U stack = (Inr U', s1)"
    and cid: "cid = getContinuationId (config s0) (callerfile_of stack) (fn_name s0 U)"
  shows "U' = U
         \<and> fn_continuationId s1 U = Some cid
         \<and> continuations (run s1 calls) cid = Some U
         \<and> (fn_continuationId s0 U = None \<and> cid \<noteq> [] \<and> s0 = run s_init before
              \<longrightarrow> attach_count s_init before U = 0
                  \<and> attach_count s1 calls U = 0
                  \<and> attach_count s_init (before @ CanContinueWith U stack # calls) U = 1
                  \<and> fn_continuationId (run s1 calls) U = Some cid)"
proof -
  from canContinueWith_Inr [OF reg] cid
  have f: "U' = U" "\<not> truthy (fn_continuationId s0 U)" "fn_continuationId s1 U = Some cid"
    "continuations s1 cid = Some U" by simp_all
  have once: "fn_continuationId s0 U = None \<and> cid \<noteq> [] \<and> s0 = run s_init before
              \<longrightarrow> attach_count s_init before U = 0
                  \<and> attach_count s1 calls U = 0
                  \<and> attach_count s_init (before @ CanContinueWith U stack # calls) U = 1
                  \<and> fn_continuationId (run s1 calls) U = Some cid"
  proof
    assume a: "fn_continuationId s0 U = None \<and> cid \<noteq> [] \<and> s0 = run s_init before"
    then have none: "fn_continuationId (run s_init before) U = None"
      and s0: "run s_init before = s0" and ne: "cid \<noteq> []" by auto
    from none have b: "attach_count s_init before U = 0" by (rule attach_count_before)
    from f(3) ne have c: "attach_count s1 calls U = 0" by (rule attach_count_after)
    from f(2) have here: "attaches s0 (CanContinueWith U stack) U"
      by (simp add: attaches_def)
    from reg have s1: "exec s0 (CanContinueWith U stack) = s1" by simp
    have "attach_count s_init (before @ CanContinueWith U stack # calls) U
          = attach_count s_init before U
            + attach_count s0 (CanContinueWith U stack # calls) U"
      by (simp add: attach_count_append s0)
    also have "\<dots> = 1" using b c here s1 by simp
    finally have d: "attach_count s_init (before @ CanContinueWith U stack # calls) U = 1" .
    from f(3) ne have e: "fn_continuationId (run s1 calls) U = Some cid"
      by (rule run_identifier)
    from b c d e
    show "attach_count s_init before U = 0
                  \<and> attach_count s1 calls U = 0
                  \<and> attach_count s_init (before @ CanContinueWith U stack # calls) U = 1
                  \<and> fn_continuationId (run s1 calls) U = Some cid"
      by simp
  qed
  from f(4) have "continuations (run s1 calls) cid = Some U" by (rule run_entry)
  with f(1,3) once show ?thesis by simp
qed

text \<open>
  \<^verbatim>\<open>startContinuation\<close> registered after some earlier calls and followed by the sample
  calls, among them a second registration of it: one assignment in the whole sequence.
\<close>

theorem registration_attaches_identifier_witness:
  "canContinueWith (run sample_state early_calls) 0 sample_stack = (Inr 0, late_registered)
   \<and> ''continuations.js#startContinuation''
       = getContinuationId (config (run sample_state early_calls)) (callerfile_of sample_stack)
           (fn_name (run sample_state early_calls) 0)
   \<and> fn_continuationId (run sample_state early_calls) 0 = None
   \<and> fn_continuationId late_registered 0 = Some ''continuations.js#startContinuation''
   \<and> continuations (run late_registered sample_calls) ''continuations.js#startContinuation''
       = Some 0
   \<and> attach_count sample_state (early_calls @ CanContinueWith 0 sample_stack # sample_calls) 0
       = 1
   \<and> fn_continuationId (run late_registered sample_calls) 0
       = Some ''continuations.js#startContinuation''"
proof -
  have reg: "canContinueWith (run sample_state early_calls) 0 sample_stack
             = (Inr 0, late_registered)"
    unfolding late_registered_def
    by (rule prod_eqI)
       (simp_all add: model_defs sample_defs early_calls_def give_up_config_def)
  have cid: "''continuations.js#startContinuation''
       = getContinuationId (config (run sample_state early_calls)) (callerfile_of sample_stack)
           (fn_name (run sample_state early_calls) 0)"
    by (simp add: model_defs sample_defs early_calls_def give_up_config_def)
  have prior: "fn_continuationId (run sample_state early_calls) 0 = None"
    by (simp add: model_defs sample_defs early_calls_def give_up_config_def)
  have ne: "''continuations.js#startContinuation'' \<noteq> []" by simp
  note attached = registration_attaches_identifier
               [OF reg cid, where calls = sample_calls and s_init = sample_state
                  and before = early_calls]
  from attached have 1: "fn_continuationId late_registered 0
                    = Some ''continuations.js#startContinuation''"
    and 2: "continuations (run late_registered sample_calls)
              ''continuations.js#startContinuation'' = Some 0"
    by (blast+)
  have hyp: "fn_continuationId (run sample_state early_calls) 0 = None
             \<and> ''continuations.js#startContinuation'' \<noteq> []
             \<and> run sample_state early_calls = run sample_state early_calls"
    by (intro conjI prior ne refl)
  from attached [THEN conjunct2, THEN conjunct2, THEN conjunct2, THEN mp, OF hyp]
  have 3: "attach_count sample_state
             (early_calls @ CanContinueWith 0 sample_stack # sample_calls) 0 = 1"
    and 4: "fn_continuationId (run late_registered sample_calls) 0
            = Some ''continuations.js#startContinuation''"
    by (blast+)
  show ?thesis by (intro conjI reg cid prior 1 2 3 4)
qed

text \<open>
  Without the provisos "attached exactly once" fails. \<^verbatim>\<open>startContinuation\<close> is registered
  under a policy that computes the empty string; the default policy is then configured
  again, and a second registration of the same function succeeds and replaces the
  identifier on it: two assignments in a sequence of four calls.
\<close>

theorem identifier_attached_twice:
  "fst (canContinueWith empty_id_state 0 sample_stack) = Inr 0
   \<and> fn_continuationId empty_id_registered 0 = Some []
   \<and> fst (canContinueWith reconfigured_state 0 sample_stack) = Inr 0
   \<and> fn_continuationId (snd (canContinueWith reconfigured_state 0 sample_stack)) 0
       = Some ''continuations.js#startContinuation''
   \<and> attach_count sample_state twice_calls 0 = 2"
  by (simp add: model_defs sample_defs empty_id_registered_def empty_id_state_def
                empty_id_config_def reconfigured_state_def restore_config_def
                twice_calls_def attaches_def)




section \<open>Identifiers that are not in the table\<close>

text \<open>
  Claim C2, amended. For every record with \<open>done = False\<close> whose identifier is a
  non-empty string that is not in the table, \<open>continueNow\<close> calls the
  \<^verbatim>\<open>functionNotFound\<close> policy with the record and the context. Under the default policy
  the call fails with the ContinuationNotFound error for that identifier. An error of a
  configured policy is the error of the call. A redirect with \<open>done = True\<close> is returned
  as it is. Any other redirect is executed by \<open>continueNow\<close> itself, with the same
  context; so a redirect to a registered function that returns \<^verbatim>\<open>{done: true}\<close> yields
  \<^verbatim>\<open>{done: true}\<close>, after one call of the policy and one call of that function.

  The identifier has to be non-empty, not only present: the empty string is not
  looked up and is never handed to the policy.
\<close>

theorem unresolved_identifier_goes_to_policy:
  assumes pending: "\<not> done r"
    and ident: "continuationId r = Some cid" "cid \<noteq> []"
    and missing: "continuations s cid = None"
  shows "(functionNotFound (config s) = default_functionNotFound
            \<longrightarrow> continueNow s r ctx trace w
                  = Some (Inl (ContinuationNotFound (Some cid)),
                          trace @ [NotFoundCalled r ctx], w))
         \<and> (functionNotFound (config s) r ctx w = (Inl e, w')
            \<longrightarrow> continueNow s r ctx trace w
                  = Some (Inl e, trace @ [NotFoundCalled r ctx], w'))
         \<and> (functionNotFound (config s) r ctx w = (Inr redirect, w') \<and> done redirect
            \<longrightarrow> continueNow s r ctx trace w
                  = Some (Inr redirect, trace @ [NotFoundCalled r ctx], w'))
         \<and> (functionNotFound (config s) r ctx w = (Inr redirect, w') \<and> \<not> done redirect
            \<longrightarrow> continueNow s r ctx trace w
                  = continueNow s redirect ctx (trace @ [NotFoundCalled r ctx]) w')
         \<and> (functionNotFound (config s) r ctx w = (Inr redirect, w') \<and> \<not> done redirect
             \<and> continuationId redirect = Some cid' \<and> cid' \<noteq> []
             \<and> continuations s cid' = Some U
             \<and> fn_body s U ctx (case args redirect of None \<Rightarrow> [] | Some as \<Rightarrow> as) w'
                 = (Inr dontContinue, w'')
            \<longrightarrow> continueNow s r ctx trace w
                  = Some (Inr dontContinue,
                          trace @ [NotFoundCalled r ctx,
                                   Invoked U ctx
                                     (case args redirect of None \<Rightarrow> [] | Some as \<Rightarrow> as)],
                          w''))"
proof -
  have unfold: "continueNow s r ctx trace w =
           (case functionNotFound (config s) r ctx w of
              (Inl e, w') \<Rightarrow> Some (Inl e, trace @ [NotFoundCalled r ctx], w')
            | (Inr redirect, w') \<Rightarrow>
                if \<not> done redirect
                then continueNow s redirect ctx (trace @ [NotFoundCalled r ctx]) w'
                else Some (Inr redirect, trace @ [NotFoundCalled r ctx], w'))"
    using assms by (intro continueNow_not_found) simp_all
  have 1: "functionNotFound (config s) = default_functionNotFound
            \<longrightarrow> continueNow s r ctx trace w
                  = Some (Inl (ContinuationNotFound (Some cid)),
                          trace @ [NotFoundCalled r ctx], w)"
    using ident by (simp add: unfold default_functionNotFound_def)
  have 2: "functionNotFound (config s) r ctx w = (Inl e, w')
            \<longrightarrow> continueNow s r ctx trace w
                  = Some (Inl e, trace @ [NotFoundCalled r ctx], w')"
    by (simp add: unfold)
  have 3: "functionNotFound (config s) r ctx w = (Inr redirect, w') \<and> done redirect
            \<longrightarrow> continueNow s r ctx trace w
                  = Some (Inr redirect, trace @ [NotFoundCalled r ctx], w')"
    by (simp add: unfold)
  have 4: "functionNotFound (config s) r ctx w = (Inr redirect, w') \<and> \<not> done redirect
            \<longrightarrow> continueNow s r ctx trace w
                  = continueNow s redirect ctx (trace @ [NotFoundCalled r ctx]) w'"
    by (simp add: unfold)
  have 5: "functionNotFound (config s) r ctx w = (Inr redirect, w') \<and> \<not> done redirect
             \<and> continuationId redirect = Some cid' \<and> cid' \<noteq> []
             \<and> continuations s cid' = Some U
             \<and> fn_body s U ctx (case args redirect of None \<Rightarrow> [] | Some as \<Rightarrow> as) w'
                 = (Inr dontContinue, w'')
            \<longrightarrow> continueNow s r ctx trace w
                  = Some (Inr dontContinue,
                          trace @ [NotFoundCalled r ctx,
                                   Invoked U ctx
                                     (case args redirect of None \<Rightarrow> [] | Some as \<Rightarrow> as)],
                          w'')"
  proof
    assume a: "functionNotFound (config s) r ctx w = (Inr redirect, w') \<and> \<not> done redirect
             \<and> continuationId redirect = Some cid' \<and> cid' \<noteq> []
             \<and> continuations s cid' = Some U
             \<and> fn_body s U ctx (case args redirect of None \<Rightarrow> [] | Some as \<Rightarrow> as) w'
                 = (Inr dontContinue, w'')"
    then have "continueNow s r ctx trace w
                  = continueNow s redirect ctx (trace @ [NotFoundCalled r ctx]) w'"
      using 4 by simp
    also have "\<dots> = Some (Inr dontContinue,
                          (trace @ [NotFoundCalled r ctx]) @
                            [Invoked U ctx (case args redirect of None \<Rightarrow> [] | Some as \<Rightarrow> as)],
                          w'')"
      using a continueNow_found [of redirect s U ctx "trace @ [NotFoundCalled r ctx]" w']
      by simp
    finally show "continueNow s r ctx trace w
                  = Some (Inr dontContinue,
                          trace @ [NotFoundCalled r ctx,
                                   Invoked U ctx
                                     (case args redirect of None \<Rightarrow> [] | Some as \<Rightarrow> as)],
                          w'')" by simp
  qed
  from 1 2 3 4 5 show ?thesis by blast
qed

text \<open>
  The record for the identifier \<^verbatim>\<open>missing\<close> with the sample functions registered: under
  the default configuration, under a policy that ends the chain, and under the README's
  policy that redirects to \<^verbatim>\<open>errorContinuation\<close>.
\<close>

theorem unresolved_identifier_goes_to_policy_witness:
  "\<not> done missing_record \<and> continuationId missing_record = Some ''missing''
   \<and> continuations registered_state ''missing'' = None
   \<and> functionNotFound (config registered_state) = default_functionNotFound
   \<and> continueNow registered_state missing_record True [] 0
       = Some (Inl (ContinuationNotFound (Some ''missing'')),
               [NotFoundCalled missing_record True], 0)
   \<and> continueNow give_up_state missing_record True [] 0
       = Some (Inr dontContinue, [NotFoundCalled missing_record True], 1)
   \<and> functionNotFound (config redirect_state) missing_record True 0 = (Inr error_record, 0)
   \<and> continuations redirect_state ''continuations.js#errorContinuation'' = Some 2
   \<and> continueNow redirect_state missing_record True [] 0
       = continueNow redirect_state error_record True [NotFoundCalled missing_record True] 0
   \<and> continueNow redirect_state missing_record True [] 0
       = Some (Inr dontContinue, [NotFoundCalled missing_record True, Invoked 2 True []], 1)"
proof -
  have pending: "\<not> done missing_record"
    and ident: "continuationId missing_record = Some ''missing''" "''missing'' \<noteq> []"
    by (simp_all add: missing_record_def)
  have m1: "continuations registered_state ''missing'' = None"
    and m2: "continuations give_up_state ''missing'' = None"
    and m3: "continuations redirect_state ''missing'' = None"
    by (simp_all add: model_defs sample_defs registered_state_def give_up_state_def
                      redirect_state_def)
  have dflt: "functionNotFound (config registered_state) = default_functionNotFound"
    by (simp add: model_defs sample_defs registered_state_def)
  have gives_up: "functionNotFound (config give_up_state) missing_record True 0
                  = (Inr dontContinue, 1)" "done (dontContinue :: nat Continuation)"
    by (simp_all add: model_defs give_up_state_def give_up_config_def)
  have redirects: "functionNotFound (config redirect_state) missing_record True 0
                   = (Inr error_record, 0)"
    and live: "\<not> done error_record"
    and target: "continuationId error_record = Some ''continuations.js#errorContinuation''"
      "continuations redirect_state ''continuations.js#errorContinuation'' = Some 2"
    and body: "fn_body redirect_state 2 True
                 (case args error_record of None \<Rightarrow> [] | Some as \<Rightarrow> as) 0
               = (Inr dontContinue, 1)"
    by (simp_all add: model_defs sample_defs registered_state_def redirect_state_def
                      redirect_config_def error_record_def)
  note policy = unresolved_identifier_goes_to_policy [OF pending ident]
  have 1: "continueNow registered_state missing_record True [] 0
       = Some (Inl (ContinuationNotFound (Some ''missing'')),
               [NotFoundCalled missing_record True], 0)"
    using policy [OF m1, where ctx = True and trace = "[]" and w = 0,
                  THEN conjunct1, THEN mp, OF dflt]
    by simp
  have 2: "continueNow give_up_state missing_record True [] 0
       = Some (Inr dontContinue, [NotFoundCalled missing_record True], 1)"
    using policy [OF m2, where trace = "[]",
                  THEN conjunct2, THEN conjunct2, THEN conjunct1, THEN mp,
                  OF conjI, OF gives_up]
    by simp
  have 3: "continueNow redirect_state missing_record True [] 0
       = continueNow redirect_state error_record True [NotFoundCalled missing_record True] 0"
    using policy [OF m3, where trace = "[]",
                  THEN conjunct2, THEN conjunct2, THEN conjunct2, THEN conjunct1,
                  THEN mp, OF conjI, OF redirects live]
    by simp
  have ne: "''continuations.js#errorContinuation'' \<noteq> []" by simp
  have pre: "continueNow redirect_state missing_record True [] 0
       = Some (Inr dontContinue,
               [NotFoundCalled missing_record True,
                Invoked 2 True (case args error_record of None \<Rightarrow> [] | Some as \<Rightarrow> as)], 1)"
  proof -
    have "functionNotFound (config redirect_state) missing_record True 0 = (Inr error_record, 0)
          \<and> \<not> done error_record
          \<and> continuationId error_record = Some ''continuations.js#errorContinuation''
          \<and> ''continuations.js#errorContinuation'' \<noteq> []
          \<and> continuations redirect_state ''continuations.js#errorContinuation'' = Some 2
          \<and> fn_body redirect_state 2 True
                (case args error_record of None \<Rightarrow> [] | Some as \<Rightarrow> as) 0
              = (Inr dontContinue, 1)"
      by (intro conjI redirects live target ne body)
    from policy [OF m3, where trace = "[]",
                 THEN conjunct2, THEN conjunct2, THEN conjunct2, THEN conjunct2,
                 THEN mp, OF this]
    show ?thesis by simp
  qed
  have "(case args error_record of None \<Rightarrow> [] | Some as \<Rightarrow> as) = []"
    by (simp add: error_record_def)
  with pre have 4: "continueNow redirect_state missing_record True [] 0
       = Some (Inr dontContinue, [NotFoundCalled missing_record True, Invoked 2 True []], 1)"
    by simp
  show ?thesis
    by (intro conjI pending ident(1) m1 dflt 1 2 redirects target(2) 3 4)
qed

text \<open>
  With "present" for "non-empty" the statement fails: the record
  \<^verbatim>\<open>{done: false, continuationId: ''}\<close> has an identifier, the empty table of the freshly
  loaded module does not hold it, the configuration is the default one, and
  \<open>continueNow\<close> returns \<^verbatim>\<open>{done: true}\<close> without an error and without a call of the
  policy.
\<close>

theorem empty_identifier_skips_policy:
  "\<not> done \<lparr>done = False, continuationId = Some [], args = (None :: nat list option)\<rparr>
   \<and> continuationId \<lparr>done = False, continuationId = Some [], args = (None :: nat list option)\<rparr>
       = Some []
   \<and> continuations sample_state [] = None
   \<and> functionNotFound (config sample_state) = default_functionNotFound
   \<and> continueNow sample_state \<lparr>done = False, continuationId = Some [], args = None\<rparr> False [] 0
       = Some (Inr dontContinue, [], 0)"
proof -
  have "continueNow sample_state \<lparr>done = False, continuationId = Some [], args = None\<rparr>
          False [] 0
        = Some (Inr dontContinue, [], 0)"
    by (rule continueNow_terminal) simp
  then show ?thesis by (simp add: model_defs sample_defs)
qed

end
